theory Spec2Isabelle
  imports Complex_Main
begin

section \<open>Data model (types.ts, constants.tsx)\<close>

text \<open>
  The enums of the source are datatypes and its interfaces are records.  A JavaScript
  \<open>number\<close> that only ever holds whole amounts (emeralds, xp, level, counters, timers)
  is an \<open>int\<close>; a score, which the game screen computes by a division, is a \<open>real\<close>
  (the idealisation of a double: no rounding, no NaN).  A \<open>Record<string, T>\<close> indexed
  by a \<open>GameType\<close> is a map \<open>GameType \<rightharpoonup> T\<close>: a JavaScript object holds every key at
  most once, and an absent key reads as \<open>undefined\<close>, here \<open>None\<close>.
\<close>

datatype GameType = MAKE_TEN | NUMBER_HOP | DOUBLES | COUNT_UP

datatype PlayMode = TIMED | FREE | STREAK

datatype MasteryRating = Diamond | Iron | Wood

record TestResult =
  score :: real
  rating :: MasteryRating
  time :: int
  gameType :: GameType

record AppState =
  emeralds :: int
  xp :: int
  level :: int
  testScores :: "GameType \<rightharpoonup> real"
  unlockedItems :: "string list"
  equippedItem :: string
  hearts :: int
  successCounts :: "GameType \<rightharpoonup> int"
  isLocked :: "GameType \<rightharpoonup> bool"
  otherSuccessesSinceLock :: "GameType \<rightharpoonup> int"
  currentPlayMode :: PlayMode
  streak :: int

datatype Ops = Ops_plus | Ops_minus | Ops_mixed

datatype OneHandedMode = Hand_off | Hand_left | Hand_right

text \<open>The field \<open>range\<close> of the source is \<open>range_max\<close> here (\<open>range\<close> is taken in HOL).\<close>

record Settings =
  range_max :: int
  ops :: Ops
  sessionTimer :: int
  testTimer :: int
  soundOn :: bool
  oneHandedMode :: OneHandedMode
  assistMode :: bool

definition INITIAL_STATE :: AppState where
  "INITIAL_STATE =
     \<lparr>emeralds = 0, xp = 0, level = 1,
      testScores = Map.empty,
      unlockedItems = [''base-char''],
      equippedItem = ''base-char'',
      hearts = 3,
      successCounts = [MAKE_TEN \<mapsto> 0, NUMBER_HOP \<mapsto> 0, DOUBLES \<mapsto> 0, COUNT_UP \<mapsto> 0],
      isLocked = [MAKE_TEN \<mapsto> False, NUMBER_HOP \<mapsto> False, DOUBLES \<mapsto> False, COUNT_UP \<mapsto> False],
      otherSuccessesSinceLock = [MAKE_TEN \<mapsto> 0, NUMBER_HOP \<mapsto> 0, DOUBLES \<mapsto> 0, COUNT_UP \<mapsto> 0],
      currentPlayMode = TIMED,
      streak = 0\<rparr>"

definition INITIAL_SETTINGS :: Settings where
  "INITIAL_SETTINGS =
     \<lparr>range_max = 10, ops = Ops_plus, sessionTimer = 5, testTimer = 60, soundOn = True,
      oneHandedMode = Hand_off, assistMode = False\<rparr>"

section \<open>Reading JavaScript objects\<close>

text \<open>
  \<open>m[k] || 0\<close>: an absent key gives 0, and so does a stored 0; any other number is
  itself.
\<close>

definition or0 :: "('k \<rightharpoonup> 'v::zero) \<Rightarrow> 'k \<Rightarrow> 'v" where
  "or0 m k = (case m k of None \<Rightarrow> 0 | Some v \<Rightarrow> v)"

text \<open>\<open>m[k]\<close> in a condition: true only for a stored \<open>true\<close>.\<close>

definition truthy :: "('k \<rightharpoonup> bool) \<Rightarrow> 'k \<Rightarrow> bool" where
  "truthy m k = (m k = Some True)"

text \<open>
  \<open>Object.keys(m)\<close>, the keys present in \<open>m\<close>.  JavaScript lists them in insertion
  order; the model lists them in the order of \<open>INITIAL_STATE\<close>.  The loop of
  \<open>completeGame\<close> that runs over them touches, in each round, the entries of its own
  key only, so the order does not show in the result (lemma \<open>forEach_entry\<close> below
  holds for every duplicate-free key list).
\<close>

definition Object_keys :: "(GameType \<rightharpoonup> 'v) \<Rightarrow> GameType list" where
  "Object_keys m = filter (\<lambda>k. m k \<noteq> None) [MAKE_TEN, NUMBER_HOP, DOUBLES, COUNT_UP]"

section \<open>Mastery ratings (Screens.tsx: TestSelection, GameScreen)\<close>

text \<open>
  \<open>TestSelection\<close>, for each test tile:
  \<^verbatim>\<open>const score = scores[t.type] || 0;\<close>
  \<^verbatim>\<open>const rating = score >= 90 ? 'Diamond' : score >= 75 ? 'Iron' : 'Wood';\<close>
\<close>

definition TestSelection_rating :: "(GameType \<rightharpoonup> real) \<Rightarrow> GameType \<Rightarrow> MasteryRating" where
  "TestSelection_rating scores t =
     (let score = or0 scores t
      in if score \<ge> 90 then Diamond else if score \<ge> 75 then Iron else Wood)"

text \<open>
  \<open>GameScreen.handleAnswer\<close>, when an attempt is finished (see \<open>handleAnswer\<close> below
  for when that is), with \<open>nextCorrect = correctCount + 1\<close>:
  \<^verbatim>\<open>const finalResult = isTest\<close>
  \<^verbatim>\<open>  ? { score: (nextCorrect/10)*100, rating: (nextCorrect/10)*100 >= 90 ? 'Diamond' : 'Wood',\<close>
  \<^verbatim>\<open>      time: settings.testTimer - timeLeft, gameType: type }\<close>
  \<^verbatim>\<open>  : { score: 100, rating: 'Diamond', time: 0, gameType: type };\<close>
\<close>

definition finalResult :: "bool \<Rightarrow> nat \<Rightarrow> Settings \<Rightarrow> int \<Rightarrow> GameType \<Rightarrow> TestResult" where
  "finalResult isTest nextCorrect settings timeLeft gtype =
     (if isTest
      then \<lparr>score = (real nextCorrect / 10) * 100,
            rating = (if (real nextCorrect / 10) * 100 \<ge> 90 then Diamond else Wood),
            time = testTimer settings - timeLeft,
            gameType = gtype\<rparr>
      else \<lparr>score = 100, rating = Diamond, time = 0, gameType = gtype\<rparr>)"

section \<open>The progress state and its updates (Screens.tsx: App)\<close>

text \<open>
  \<open>addEmeralds\<close>: the function handed to \<open>setState\<close>.
\<close>

definition addEmeralds :: "int \<Rightarrow> AppState \<Rightarrow> AppState" where
  "addEmeralds amount prev =
     prev\<lparr>emeralds := emeralds prev + amount,
          xp := xp prev + amount * 5,
          level := (xp prev + amount * 5) div 100 + 1\<rparr>"

text \<open>
  One round of the \<open>forEach\<close> of \<open>completeGame\<close> over the keys of \<open>newLocks\<close>, on
  the three objects the loop writes: \<open>(newCounts, newLocks, newUnlockCounters)\<close>.
\<close>

type_synonym ledger = "(GameType \<rightharpoonup> int) \<times> (GameType \<rightharpoonup> bool) \<times> (GameType \<rightharpoonup> int)"

definition forEach_body :: "GameType \<Rightarrow> GameType \<Rightarrow> ledger \<Rightarrow> ledger" where
  "forEach_body gtype gameKey l =
     (case l of (newCounts, newLocks, newUnlockCounters) \<Rightarrow>
        if truthy newLocks gameKey \<and> gameKey \<noteq> gtype
        then (let n = or0 newUnlockCounters gameKey + 1
              in if n \<ge> 3
                 then (newCounts(gameKey \<mapsto> 0), newLocks(gameKey \<mapsto> False),
                       newUnlockCounters(gameKey \<mapsto> 0))
                 else (newCounts, newLocks, newUnlockCounters(gameKey \<mapsto> n)))
        else (newCounts, newLocks, newUnlockCounters))"

text \<open>
  The function \<open>completeGame\<close> hands to \<open>setState\<close>.  \<open>isTestMode\<close> is the component's
  state variable, read through the closure.
\<close>

definition completeGame_update :: "bool \<Rightarrow> TestResult \<Rightarrow> AppState \<Rightarrow> AppState" where
  "completeGame_update isTestMode result prev =
     (let gtype = gameType result
      in if isTestMode
         then (let currentBest = or0 (testScores prev) gtype
               in if score result \<ge> currentBest
                  then prev\<lparr>testScores := (testScores prev)(gtype \<mapsto> score result)\<rparr>
                  else prev)
         else (let n = or0 (successCounts prev) gtype + 1;
                   newCounts = (successCounts prev)(gtype \<mapsto> n);
                   newLocks = (if n \<ge> 5 then (isLocked prev)(gtype \<mapsto> True) else isLocked prev);
                   newUnlockCounters = otherSuccessesSinceLock prev
               in case fold (forEach_body gtype) (Object_keys newLocks)
                         (newCounts, newLocks, newUnlockCounters) of
                    (newCounts', newLocks', newUnlockCounters') \<Rightarrow>
                      prev\<lparr>successCounts := newCounts',
                           isLocked := newLocks',
                           otherSuccessesSinceLock := newUnlockCounters'\<rparr>))"

text \<open>The state of the \<open>App\<close> component: its six \<open>useState\<close> variables.\<close>

datatype View = V_hub | V_game | V_results | V_shop | V_parent | V_test_select

record App =
  state :: AppState
  settings :: Settings
  currentView :: View
  activeGame :: "GameType option"
  playMode :: PlayMode
  isTestMode :: bool
  lastGameResult :: "TestResult option"

text \<open>A first launch, with nothing saved.\<close>

definition App_init :: App where
  "App_init =
     \<lparr>state = INITIAL_STATE, settings = INITIAL_SETTINGS, currentView = V_hub,
      activeGame = None, playMode = TIMED, isTestMode = False, lastGameResult = None\<rparr>"

text \<open>
  \<open>completeGame\<close>: it records the result, queues its own update of the state, then
  calls \<open>addEmeralds(Math.floor(result.score / 10))\<close>, which queues a second one, and
  shows the results.  The two queued updates are applied in that order.
\<close>

definition completeGame :: "TestResult \<Rightarrow> App \<Rightarrow> App" where
  "completeGame result app =
     app\<lparr>lastGameResult := Some result,
         state := addEmeralds \<lfloor>score result / 10\<rfloor>
                    (completeGame_update (isTestMode app) result (state app)),
         currentView := V_results\<rparr>"

definition startGame :: "GameType \<Rightarrow> PlayMode \<Rightarrow> bool \<Rightarrow> App \<Rightarrow> App" where
  "startGame gtype mode test app =
     (if \<not> test \<and> truthy (isLocked (state app)) gtype then app
      else app\<lparr>activeGame := Some gtype, playMode := mode, isTestMode := test,
               currentView := V_game\<rparr>)"

text \<open>\<open>resetProgress\<close>; the argument is the answer to the \<open>confirm\<close> dialog.\<close>

definition resetProgress :: "bool \<Rightarrow> App \<Rightarrow> App" where
  "resetProgress confirmed app =
     (if confirmed
      then app\<lparr>state := INITIAL_STATE, settings := INITIAL_SETTINGS, currentView := V_hub\<rparr>
      else app)"

definition buyItem :: "int \<Rightarrow> string \<Rightarrow> App \<Rightarrow> App" where
  "buyItem price itemId app =
     (if emeralds (state app) \<ge> price \<and> itemId \<notin> set (unlockedItems (state app))
      then app\<lparr>state := (state app)
                 \<lparr>emeralds := emeralds (state app) - price,
                  unlockedItems := unlockedItems (state app) @ [itemId],
                  equippedItem := itemId\<rparr>\<rparr>
      else if itemId \<in> set (unlockedItems (state app))
      then app\<lparr>state := (state app)\<lparr>equippedItem := itemId\<rparr>\<rparr>
      else app)"

section \<open>Runs of the application\<close>

text \<open>
  What the user and the game screen can make \<open>App\<close> do.  \<open>Finish nextCorrect timeLeft\<close>
  is the game screen handing its \<open>finalResult\<close> to \<open>onComplete\<close>; the screen exists
  only in the view \<open>'game'\<close> with an active game, and it is given \<open>activeGame\<close>,
  \<open>isTestMode\<close> and \<open>settings\<close> as props.  \<open>Buy\<close> takes any price and item, not only
  those of \<open>SHOP_ITEMS\<close>.  Erasing the progress (\<open>resetProgress\<close>) puts
  \<open>INITIAL_STATE\<close> back: it ends the life of a progress state, and a run starts again
  from the initial one.
\<close>

datatype Event =
    Start GameType PlayMode bool
  | Finish nat int
  | Buy int string
  | Show_view View
  | Update_settings Settings

fun step :: "Event \<Rightarrow> App \<Rightarrow> App" where
  "step (Start gtype mode test) app = startGame gtype mode test app"
| "step (Finish nextCorrect timeLeft) app =
     (case activeGame app of
        None \<Rightarrow> app
      | Some gtype \<Rightarrow>
          if currentView app = V_game
          then completeGame (finalResult (isTestMode app) nextCorrect (settings app) timeLeft gtype) app
          else app)"
| "step (Buy price itemId) app = buyItem price itemId app"
| "step (Show_view v) app = app\<lparr>currentView := v\<rparr>"
| "step (Update_settings s) app = app\<lparr>settings := s\<rparr>"

definition run :: "Event list \<Rightarrow> App \<Rightarrow> App" where
  "run evs app = fold step evs app"

section \<open>The game screen (Screens.tsx: GameScreen)\<close>

text \<open>
  The state of the \<open>GameScreen\<close> component that its logic reads: \<open>qIndex\<close>,
  \<open>correctCount\<close>, \<open>hearts\<close> (here \<open>heartsLeft\<close>; \<open>hearts\<close> is a field of \<open>AppState\<close>) and
  \<open>timeLeft\<close>, with their initial values.  The feedback overlay and the instructions
  are display only.
\<close>

record GameScreen =
  qIndex :: nat
  correctCount :: nat
  heartsLeft :: int
  timeLeft :: int








section \<open>The spec's clamping\<close>

text \<open>
  The spec recommends to clamp a score to the valid range, 0 to 100, before the reward
  and the mastery are computed.  This definition follows the spec's words, for
  comparison with the code; nothing in the source computes it.
\<close>

definition spec_clamp :: "real \<Rightarrow> real" where
  "spec_clamp s = max 0 (min 100 s)"

section \<open>Proof devices\<close>

text \<open>
  The loop of \<open>completeGame\<close> works on three objects at once.  \<open>ledger_of\<close> takes them
  out of a state, \<open>entry v\<close> reads the three values stored for the key \<open>v\<close>, and
  \<open>unlock_entry\<close> is what one round of the loop does to the values of its own key when
  that key is not the game just completed.
\<close>

definition ledger_of :: "AppState \<Rightarrow> ledger" where
  "ledger_of s = (successCounts s, isLocked s, otherSuccessesSinceLock s)"

definition entry :: "GameType \<Rightarrow> ledger \<Rightarrow> int option \<times> bool option \<times> int option" where
  "entry v l = (case l of (c, k, u) \<Rightarrow> (c v, k v, u v))"

type_synonym ledger_entry = "int option \<times> bool option \<times> int option"

definition unlock_entry :: "ledger_entry \<Rightarrow> ledger_entry" where
  "unlock_entry e =
     (case e of (c, k, u) \<Rightarrow>
        if k = Some True
        then (let n = (case u of None \<Rightarrow> 0 | Some x \<Rightarrow> x) + 1
              in if n \<ge> 3 then (Some 0, Some False, Some 0) else (c, k, Some n))
        else (c, k, u))"

section \<open>The loop over the locked games, key by key\<close>

lemma forEach_body_other: "k \<noteq> v \<Longrightarrow> entry v (forEach_body t k l) = entry v l"
  by (cases l) (simp add: forEach_body_def entry_def Let_def)

lemma forEach_body_self:
  "entry v (forEach_body t v l) = (if v \<noteq> t then unlock_entry (entry v l) else entry v l)"
  by (cases l) (simp add: forEach_body_def entry_def unlock_entry_def truthy_def or0_def Let_def)

lemma fold_forEach_notin:
  "v \<notin> set ks \<Longrightarrow> entry v (fold (forEach_body t) ks l) = entry v l"
  by (induction ks arbitrary: l) (auto simp add: forEach_body_other)

lemma forEach_entry:
  "distinct ks \<Longrightarrow>
   entry v (fold (forEach_body t) ks l)
     = (if v \<in> set ks \<and> v \<noteq> t then unlock_entry (entry v l) else entry v l)"
proof (induction ks arbitrary: l)
  case Nil
  then show ?case by simp
next
  case (Cons k ks)
  show ?case
  proof (cases "k = v")
    case True
    with Cons.prems have "v \<notin> set ks" by simp
    then have "entry v (fold (forEach_body t) ks (forEach_body t v l)) = entry v (forEach_body t v l)"
      by (rule fold_forEach_notin)
    with True show ?thesis by (simp add: forEach_body_self)
  next
    case False
    from Cons.prems have "distinct ks" by simp
    from Cons.IH [OF this, of "forEach_body t k l"] False
    show ?thesis by (simp add: forEach_body_other)
  qed
qed

lemma distinct_Object_keys: "distinct (Object_keys m)"
  by (simp add: Object_keys_def)

lemma set_Object_keys: "v \<in> set (Object_keys m) \<longleftrightarrow> m v \<noteq> None"
  by (cases v) (auto simp add: Object_keys_def)

lemma unlock_entry_absent: "unlock_entry (c, None, u) = (c, None, u)"
  by (simp add: unlock_entry_def)


lemma entry_ledger_of:
  "entry v (ledger_of s) = (successCounts s v, isLocked s v, otherSuccessesSinceLock s v)"
  by (simp add: entry_def ledger_of_def)

lemma practice_entry:
  "entry v (ledger_of (completeGame_update False r s))
     = (if gameType r = v
        then (Some (or0 (successCounts s) v + 1),
              (if or0 (successCounts s) v + 1 \<ge> 5 then Some True else isLocked s v),
              otherSuccessesSinceLock s v)
        else unlock_entry (entry v (ledger_of s)))"
proof -
  define n where "n = or0 (successCounts s) (gameType r) + 1"
  define newLocks where
    "newLocks = (if n \<ge> 5 then (isLocked s)(gameType r \<mapsto> True) else isLocked s)"
  define l0 where
    "l0 = ((successCounts s)(gameType r \<mapsto> n), newLocks, otherSuccessesSinceLock s)"
  define l1 where "l1 = fold (forEach_body (gameType r)) (Object_keys newLocks) l0"
  have upd: "ledger_of (completeGame_update False r s) = l1"
    by (simp add: completeGame_update_def Let_def ledger_of_def l1_def l0_def newLocks_def n_def
        split: prod.split)
  have fold: "entry v l1
      = (if v \<in> set (Object_keys newLocks) \<and> v \<noteq> gameType r
         then unlock_entry (entry v l0) else entry v l0)"
    unfolding l1_def by (rule forEach_entry [OF distinct_Object_keys])
  show ?thesis
  proof (cases "gameType r = v")
    case True
    then have "entry v l1 = entry v l0" using fold by simp
    with True show ?thesis
      by (simp add: upd l0_def newLocks_def n_def entry_def)
  next
    case False
    then have e0: "entry v l0 = entry v (ledger_of s)"
      by (simp add: l0_def newLocks_def entry_def ledger_of_def)
    have "entry v l1 = unlock_entry (entry v (ledger_of s))"
    proof (cases "v \<in> set (Object_keys newLocks)")
      case True
      with False fold e0 show ?thesis by simp
    next
      case False
      then have "newLocks v = None" by (simp add: set_Object_keys)
      with \<open>gameType r \<noteq> v\<close> have "isLocked s v = None"
        by (simp add: newLocks_def split: if_splits)
      then have "unlock_entry (entry v (ledger_of s)) = entry v (ledger_of s)"
        by (simp add: entry_ledger_of unlock_entry_absent)
      with False fold e0 show ?thesis by simp
    qed
    with False show ?thesis by (simp add: upd)
  qed
qed

lemma completeGame_ledger:
  "ledger_of (state (completeGame r app))
     = ledger_of (completeGame_update (isTestMode app) r (state app))"
  by (simp add: completeGame_def addEmeralds_def ledger_of_def)

lemma completeGame_isTestMode: "isTestMode (completeGame r app) = isTestMode app"
  by (simp add: completeGame_def)

lemma completeGame_practice_entry:
  "\<not> isTestMode app \<Longrightarrow>
   entry v (ledger_of (state (completeGame r app)))
     = (if gameType r = v
        then (Some (or0 (successCounts (state app)) v + 1),
              (if or0 (successCounts (state app)) v + 1 \<ge> 5 then Some True
               else isLocked (state app) v),
              otherSuccessesSinceLock (state app) v)
        else unlock_entry (entry v (ledger_of (state app))))"
  by (simp add: completeGame_ledger practice_entry)

lemma practice_same_fold:
  "\<forall>r\<in>set rs. gameType r = v \<Longrightarrow> \<not> isTestMode app \<Longrightarrow>
   or0 (successCounts (state (fold completeGame rs app))) v
     = or0 (successCounts (state app)) v + int (length rs)
   \<and> (truthy (isLocked (state (fold completeGame rs app))) v
        \<longleftrightarrow> truthy (isLocked (state app)) v
            \<or> (rs \<noteq> [] \<and> or0 (successCounts (state app)) v + int (length rs) \<ge> 5))
   \<and> otherSuccessesSinceLock (state (fold completeGame rs app)) v
       = otherSuccessesSinceLock (state app) v
   \<and> \<not> isTestMode (fold completeGame rs app)"
proof (induction rs arbitrary: app)
  case Nil
  then show ?case by simp
next
  case (Cons r rs)
  let ?a = "completeGame r app"
  from Cons.prems have r: "gameType r = v" and rs: "\<forall>r\<in>set rs. gameType r = v" by simp_all
  from Cons.prems have nt: "\<not> isTestMode ?a" by (simp add: completeGame_isTestMode)
  have e: "entry v (ledger_of (state ?a))
      = (Some (or0 (successCounts (state app)) v + 1),
         (if or0 (successCounts (state app)) v + 1 \<ge> 5 then Some True
          else isLocked (state app) v),
         otherSuccessesSinceLock (state app) v)"
    using Cons.prems(2) r by (simp add: completeGame_practice_entry)
  then have c: "or0 (successCounts (state ?a)) v = or0 (successCounts (state app)) v + 1"
    and k: "truthy (isLocked (state ?a)) v
        \<longleftrightarrow> truthy (isLocked (state app)) v \<or> or0 (successCounts (state app)) v + 1 \<ge> 5"
    and u: "otherSuccessesSinceLock (state ?a) v = otherSuccessesSinceLock (state app) v"
    by (auto simp add: entry_ledger_of or0_def truthy_def)
  from Cons.IH [OF rs nt] c k u show ?case by auto
qed

lemma practice_other_fold:
  "\<forall>r\<in>set rs. gameType r \<noteq> v \<Longrightarrow> \<not> isTestMode app \<Longrightarrow>
   entry v (ledger_of (state (fold completeGame rs app)))
     = (unlock_entry ^^ length rs) (entry v (ledger_of (state app)))
   \<and> \<not> isTestMode (fold completeGame rs app)"
proof (induction rs arbitrary: app)
  case Nil
  then show ?case by simp
next
  case (Cons r rs)
  let ?a = "completeGame r app"
  from Cons.prems have r: "gameType r \<noteq> v" and rs: "\<forall>r\<in>set rs. gameType r \<noteq> v"
    by simp_all
  from Cons.prems have nt: "\<not> isTestMode ?a" by (simp add: completeGame_isTestMode)
  have e: "entry v (ledger_of (state ?a)) = unlock_entry (entry v (ledger_of (state app)))"
    using Cons.prems(2) r by (simp add: completeGame_practice_entry)
  from Cons.IH [OF rs nt] e show ?case by (simp add: funpow_swap1)
qed

lemma startGame_locked:
  "truthy (isLocked (state app)) v \<Longrightarrow> startGame v mode False app = app"
  by (simp add: startGame_def)

section \<open>What each operation writes\<close>

lemma completeGame_update_rewards:
  "emeralds (completeGame_update t r s) = emeralds s
   \<and> xp (completeGame_update t r s) = xp s
   \<and> level (completeGame_update t r s) = level s
   \<and> unlockedItems (completeGame_update t r s) = unlockedItems s"
  by (simp add: completeGame_update_def Let_def split: prod.split)

lemma completeGame_emeralds:
  "emeralds (state (completeGame r app)) = emeralds (state app) + \<lfloor>score r / 10\<rfloor>"
  by (simp add: completeGame_def addEmeralds_def completeGame_update_rewards)

lemma completeGame_xp:
  "xp (state (completeGame r app)) = xp (state app) + 5 * \<lfloor>score r / 10\<rfloor>"
  by (simp add: completeGame_def addEmeralds_def completeGame_update_rewards)

lemma completeGame_level:
  "level (state (completeGame r app)) = xp (state (completeGame r app)) div 100 + 1"
  by (simp add: completeGame_def addEmeralds_def)

lemma completeGame_testScores:
  "testScores (state (completeGame r app))
     = (if isTestMode app \<and> or0 (testScores (state app)) (gameType r) \<le> score r
        then (testScores (state app))(gameType r \<mapsto> score r)
        else testScores (state app))"
  by (simp add: completeGame_def addEmeralds_def completeGame_update_def Let_def
      split: prod.split)

lemma completeGame_test_ledger:
  "isTestMode app \<Longrightarrow> ledger_of (state (completeGame r app)) = ledger_of (state app)"
  unfolding completeGame_ledger by (simp add: completeGame_update_def ledger_of_def Let_def)

lemma buyItem_others:
  "xp (state (buyItem p i app)) = xp (state app)
   \<and> level (state (buyItem p i app)) = level (state app)
   \<and> testScores (state (buyItem p i app)) = testScores (state app)
   \<and> ledger_of (state (buyItem p i app)) = ledger_of (state app)"
  by (simp add: buyItem_def ledger_of_def)

lemma startGame_state: "state (startGame g m t app) = state app"
  by (simp add: startGame_def)

lemma run_Nil: "run [] app = app"
  by (simp add: run_def)

lemma run_Cons: "run (e # evs) app = run evs (step e app)"
  by (simp add: run_def)

lemma completeGame_best_mono:
  "or0 (testScores (state app)) v \<le> or0 (testScores (state (completeGame r app))) v"
proof (cases "isTestMode app \<and> or0 (testScores (state app)) (gameType r) \<le> score r")
  case True
  then have "testScores (state (completeGame r app))
      = (testScores (state app))(gameType r \<mapsto> score r)"
    by (simp add: completeGame_testScores)
  with True show ?thesis by (cases "v = gameType r") (simp_all add: or0_def)
next
  case False
  then have "testScores (state (completeGame r app)) = testScores (state app)"
    by (auto simp add: completeGame_testScores)
  then show ?thesis by simp
qed

lemma step_best_mono:
  "or0 (testScores (state app)) v \<le> or0 (testScores (state (step e app))) v"
proof (cases e)
  case (Finish n left)
  then show ?thesis
    by (simp add: completeGame_best_mono split: option.splits)
next
  case (Buy p i)
  then show ?thesis by (simp add: buyItem_others)
qed (simp_all add: startGame_state)

lemma run_best_mono:
  "or0 (testScores (state app)) v \<le> or0 (testScores (state (run evs app))) v"
proof (induction evs arbitrary: app)
  case Nil
  show ?case by (simp add: run_Nil)
next
  case (Cons e evs)
  have "or0 (testScores (state app)) v \<le> or0 (testScores (state (step e app))) v"
    by (rule step_best_mono)
  also have "\<dots> \<le> or0 (testScores (state (run evs (step e app)))) v"
    by (rule Cons.IH)
  finally show ?case by (simp add: run_Cons)
qed

lemma step_level:
  "level (state app) = xp (state app) div 100 + 1 \<Longrightarrow>
   level (state (step e app)) = xp (state (step e app)) div 100 + 1"
proof (cases e)
  case (Finish n left)
  assume "level (state app) = xp (state app) div 100 + 1"
  with Finish show ?thesis
    by (simp add: completeGame_level split: option.splits)
next
  case (Buy p i)
  assume "level (state app) = xp (state app) div 100 + 1"
  with Buy show ?thesis by (simp add: buyItem_others)
qed (simp_all add: startGame_state)

lemma run_level:
  "level (state app) = xp (state app) div 100 + 1 \<Longrightarrow>
   level (state (run evs app)) = xp (state (run evs app)) div 100 + 1"
  by (induction evs arbitrary: app) (simp_all add: run_Nil run_Cons step_level)

lemma finalResult_score_nonneg: "0 \<le> \<lfloor>score (finalResult t n s left g) / 10\<rfloor>"
  by (simp add: finalResult_def)

lemma buyItem_emeralds_nonneg:
  "0 \<le> emeralds (state app) \<Longrightarrow> 0 \<le> emeralds (state (buyItem p i app))"
  by (simp add: buyItem_def)

lemma step_emeralds:
  "0 \<le> emeralds (state app) \<Longrightarrow> 0 \<le> emeralds (state (step e app))"
proof (cases e)
  case (Finish n left)
  assume "0 \<le> emeralds (state app)"
  with Finish show ?thesis
    using finalResult_score_nonneg
    by (simp add: completeGame_emeralds split: option.splits)
next
  case (Buy p i)
  assume "0 \<le> emeralds (state app)"
  with Buy show ?thesis by (simp add: buyItem_emeralds_nonneg)
qed (simp_all add: startGame_state)

lemma run_emeralds:
  "0 \<le> emeralds (state app) \<Longrightarrow> 0 \<le> emeralds (state (run evs app))"
  by (induction evs arbitrary: app) (simp_all add: run_Nil run_Cons step_emeralds)

section \<open>The reward\<close>

text \<open>
  C7.  A completed attempt with score \<open>s\<close>, in test or in practice mode, adds
  \<open>floor (s / 10)\<close> to the emeralds and five times that to the xp; a score of 83 adds
  8 emeralds and 40 xp.
\<close>

theorem completeGame_reward:
  "emeralds (state (completeGame result app))
     = emeralds (state app) + \<lfloor>score result / 10\<rfloor>
   \<and> xp (state (completeGame result app))
     = xp (state app) + 5 * \<lfloor>score result / 10\<rfloor>
   \<and> emeralds (state (completeGame (result\<lparr>score := 83\<rparr>) app)) = emeralds (state app) + 8
   \<and> xp (state (completeGame (result\<lparr>score := 83\<rparr>) app)) = xp (state app) + 40"
  by (simp add: completeGame_def addEmeralds_def completeGame_update_def Let_def
      split: prod.split)

section \<open>Locking a game\<close>

text \<open>
  C1.  As stated, the claim fails in its last part: \<open>completeGame\<close> has no guard of its
  own, and a sixth practice completion of a game that five completions have locked
  raises its success count from 5 to 6.
\<close>

theorem sixth_completion_counterexample:
  "truthy (isLocked (state (fold completeGame
       (replicate 5 \<lparr>score = 100, rating = Diamond, time = 0, gameType = DOUBLES\<rparr>)
       App_init))) DOUBLES
   \<and> successCounts (state (fold completeGame
       (replicate 5 \<lparr>score = 100, rating = Diamond, time = 0, gameType = DOUBLES\<rparr>)
       App_init)) DOUBLES = Some 5
   \<and> successCounts (state (completeGame
       \<lparr>score = 100, rating = Diamond, time = 0, gameType = DOUBLES\<rparr>
       (fold completeGame
         (replicate 5 \<lparr>score = 100, rating = Diamond, time = 0, gameType = DOUBLES\<rparr>)
         App_init))) DOUBLES = Some 6"
proof -
  let ?r = "\<lparr>score = 100, rating = Diamond, time = 0, gameType = DOUBLES\<rparr>"
  let ?a = "fold completeGame (replicate 5 ?r) App_init"
  have g: "gameType ?r = DOUBLES" by simp
  have nt: "\<not> isTestMode App_init" by (simp add: App_init_def)
  have c0: "or0 (successCounts (state App_init)) DOUBLES = 0"
    by (simp add: App_init_def INITIAL_STATE_def or0_def)
  have k0: "\<not> truthy (isLocked (state App_init)) DOUBLES"
    by (simp add: App_init_def INITIAL_STATE_def truthy_def)
  have all: "\<forall>r\<in>set (replicate 5 ?r). gameType r = DOUBLES" using g by simp
  from practice_same_fold [OF all nt] c0 k0
  have c: "or0 (successCounts (state ?a)) DOUBLES = 5"
    and k: "truthy (isLocked (state ?a)) DOUBLES"
    and nt5: "\<not> isTestMode ?a"
    by simp_all
  from c have c5: "successCounts (state ?a) DOUBLES = Some 5"
    by (simp add: or0_def split: option.splits)
  from completeGame_practice_entry [OF nt5, of DOUBLES ?r] g c
  have "successCounts (state (completeGame ?r ?a)) DOUBLES = Some 6"
    by (simp add: entry_ledger_of)
  with k c5 show ?thesis by simp
qed

text \<open>
  C1, amended.  Starting from a success count of 0 (or none) for a game \<open>v\<close> that is
  not locked, five consecutive practice completions of \<open>v\<close> leave \<open>v\<close> locked with a
  success count of 5; after them \<open>startGame\<close> refuses a sixth practice attempt on
  \<open>v\<close>: it returns without starting a game and changes nothing.  The guard is the
  one of \<open>startGame\<close>; \<open>completeGame\<close> has none.
\<close>

theorem lock_after_five_and_gate:
  assumes "\<not> isTestMode app"
    and "or0 (successCounts (state app)) v = 0"
    and "\<not> truthy (isLocked (state app)) v"
    and "length rs = 5"
    and "\<forall>r\<in>set rs. gameType r = v"
  shows "truthy (isLocked (state (fold completeGame rs app))) v
    \<and> successCounts (state (fold completeGame rs app)) v = Some 5
    \<and> startGame v mode False (fold completeGame rs app) = fold completeGame rs app"
proof -
  let ?a = "fold completeGame rs app"
  from assms(4) have ne: "rs \<noteq> []" by auto
  from practice_same_fold [OF assms(5) assms(1)] assms(2,4) ne
  have c: "or0 (successCounts (state ?a)) v = 5" and k: "truthy (isLocked (state ?a)) v"
    by simp_all
  from c have "successCounts (state ?a) v = Some 5"
    by (simp add: or0_def split: option.splits)
  with k show ?thesis by (simp add: startGame_locked)
qed

theorem lock_after_five_and_gate_witness:
  "\<not> isTestMode App_init
   \<and> or0 (successCounts (state App_init)) DOUBLES = 0
   \<and> \<not> truthy (isLocked (state App_init)) DOUBLES
   \<and> truthy (isLocked (state (fold completeGame
        (replicate 5 \<lparr>score = 100, rating = Diamond, time = 0, gameType = DOUBLES\<rparr>)
        App_init))) DOUBLES
   \<and> successCounts (state (fold completeGame
        (replicate 5 \<lparr>score = 100, rating = Diamond, time = 0, gameType = DOUBLES\<rparr>)
        App_init)) DOUBLES = Some 5
   \<and> startGame DOUBLES STREAK False (fold completeGame
        (replicate 5 \<lparr>score = 100, rating = Diamond, time = 0, gameType = DOUBLES\<rparr>)
        App_init)
       = fold completeGame
        (replicate 5 \<lparr>score = 100, rating = Diamond, time = 0, gameType = DOUBLES\<rparr>)
        App_init"
  using lock_after_five_and_gate [of App_init DOUBLES
      "replicate 5 \<lparr>score = 100, rating = Diamond, time = 0, gameType = DOUBLES\<rparr>" STREAK]
  by (simp add: App_init_def INITIAL_STATE_def or0_def truthy_def)

section \<open>Unlocking a game\<close>

text \<open>
  C2.  As stated, for every state in which \<open>v\<close> is locked, the claim fails in its last
  part: a locked game may already have progress towards its unlocking.  After five
  completions of MAKE_TEN and one of DOUBLES, MAKE_TEN is locked with an unlock
  progress of 1, and two more completions of DOUBLES unlock it.
\<close>

theorem unlock_two_counterexample:
  "truthy (isLocked (state (fold completeGame
       (replicate 5 \<lparr>score = 100, rating = Diamond, time = 0, gameType = MAKE_TEN\<rparr>
        @ [\<lparr>score = 100, rating = Diamond, time = 0, gameType = DOUBLES\<rparr>]) App_init))) MAKE_TEN
   \<and> isLocked (state (fold completeGame
       (replicate 2 \<lparr>score = 100, rating = Diamond, time = 0, gameType = DOUBLES\<rparr>)
       (fold completeGame
         (replicate 5 \<lparr>score = 100, rating = Diamond, time = 0, gameType = MAKE_TEN\<rparr>
          @ [\<lparr>score = 100, rating = Diamond, time = 0, gameType = DOUBLES\<rparr>]) App_init))) MAKE_TEN
      = Some False
   \<and> otherSuccessesSinceLock (state (fold completeGame
       (replicate 2 \<lparr>score = 100, rating = Diamond, time = 0, gameType = DOUBLES\<rparr>)
       (fold completeGame
         (replicate 5 \<lparr>score = 100, rating = Diamond, time = 0, gameType = MAKE_TEN\<rparr>
          @ [\<lparr>score = 100, rating = Diamond, time = 0, gameType = DOUBLES\<rparr>]) App_init))) MAKE_TEN
      \<noteq> Some 2"
proof -
  let ?m = "\<lparr>score = 100, rating = Diamond, time = 0, gameType = MAKE_TEN\<rparr>"
  let ?d = "\<lparr>score = 100, rating = Diamond, time = 0, gameType = DOUBLES\<rparr>"
  let ?a5 = "fold completeGame (replicate 5 ?m) App_init"
  let ?a6 = "fold completeGame (replicate 5 ?m @ [?d]) App_init"
  let ?a8 = "fold completeGame (replicate 2 ?d) ?a6"
  have nt: "\<not> isTestMode App_init" by (simp add: App_init_def)
  have all: "\<forall>r\<in>set (replicate 5 ?m). gameType r = MAKE_TEN" by simp
  from practice_same_fold [OF all nt]
  have k5: "truthy (isLocked (state ?a5)) MAKE_TEN"
    and u5: "otherSuccessesSinceLock (state ?a5) MAKE_TEN = Some 0"
    and nt5: "\<not> isTestMode ?a5"
    by (simp_all add: App_init_def INITIAL_STATE_def or0_def)
  have a8: "?a8 = fold completeGame (replicate 3 ?d) ?a5"
    by (simp add: numeral_3_eq_3 numeral_2_eq_2)
  have a6: "?a6 = fold completeGame (replicate 1 ?d) ?a5" by simp
  have others: "\<forall>r\<in>set (replicate n ?d). gameType r \<noteq> MAKE_TEN" for n by simp
  from k5 u5 have e5: "entry MAKE_TEN (ledger_of (state ?a5))
      = (successCounts (state ?a5) MAKE_TEN, Some True, Some 0)"
    by (simp add: entry_ledger_of truthy_def)
  from practice_other_fold [OF others nt5, of 1] e5
  have "entry MAKE_TEN (ledger_of (state ?a6))
      = (successCounts (state ?a5) MAKE_TEN, Some True, Some 1)"
    unfolding a6 by (simp add: unlock_entry_def)
  then have k6: "truthy (isLocked (state ?a6)) MAKE_TEN"
    by (simp add: entry_ledger_of truthy_def)
  from practice_other_fold [OF others nt5, of 3] e5
  have "entry MAKE_TEN (ledger_of (state ?a8)) = (Some 0, Some False, Some 0)"
    unfolding a8 by (simp add: numeral_3_eq_3 unlock_entry_def)
  then have "isLocked (state ?a8) MAKE_TEN = Some False"
    and "otherSuccessesSinceLock (state ?a8) MAKE_TEN \<noteq> Some 2"
    by (simp_all add: entry_ledger_of)
  with k6 show ?thesis by simp
qed

text \<open>
  C2, amended.  For every state in which \<open>v\<close> is locked with an unlock progress of 0
  (or none), as it is when \<open>v\<close> has just been locked: three practice completions of
  games other than \<open>v\<close> leave \<open>v\<close> unlocked with a success count of 0 and an unlock
  progress of 0, and two such completions leave \<open>v\<close> locked with an unlock progress
  of 2.
\<close>

theorem unlock_after_three:
  assumes "\<not> isTestMode app"
    and "truthy (isLocked (state app)) v"
    and "or0 (otherSuccessesSinceLock (state app)) v = 0"
    and "length rs3 = 3" and "\<forall>r\<in>set rs3. gameType r \<noteq> v"
    and "length rs2 = 2" and "\<forall>r\<in>set rs2. gameType r \<noteq> v"
  shows "isLocked (state (fold completeGame rs3 app)) v = Some False
    \<and> successCounts (state (fold completeGame rs3 app)) v = Some 0
    \<and> otherSuccessesSinceLock (state (fold completeGame rs3 app)) v = Some 0
    \<and> isLocked (state (fold completeGame rs2 app)) v = Some True
    \<and> otherSuccessesSinceLock (state (fold completeGame rs2 app)) v = Some 2"
proof -
  from assms(2,3) have e0: "entry v (ledger_of (state app))
      = (successCounts (state app) v, Some True, otherSuccessesSinceLock (state app) v)"
    and u0: "otherSuccessesSinceLock (state app) v = None
             \<or> otherSuccessesSinceLock (state app) v = Some 0"
    by (auto simp add: entry_ledger_of truthy_def or0_def split: option.splits)
  from practice_other_fold [OF assms(5) assms(1)] assms(4) e0
  have "entry v (ledger_of (state (fold completeGame rs3 app)))
      = (unlock_entry ^^ 3) (successCounts (state app) v, Some True,
            otherSuccessesSinceLock (state app) v)"
    by simp
  with u0 have three: "entry v (ledger_of (state (fold completeGame rs3 app)))
      = (Some 0, Some False, Some 0)"
    by (auto simp add: numeral_3_eq_3 unlock_entry_def)
  from practice_other_fold [OF assms(7) assms(1)] assms(6) e0
  have "entry v (ledger_of (state (fold completeGame rs2 app)))
      = (unlock_entry ^^ 2) (successCounts (state app) v, Some True,
            otherSuccessesSinceLock (state app) v)"
    by simp
  with u0 have two: "entry v (ledger_of (state (fold completeGame rs2 app)))
      = (successCounts (state app) v, Some True, Some 2)"
    by (auto simp add: numeral_2_eq_2 unlock_entry_def)
  from three two show ?thesis by (simp add: entry_ledger_of)
qed

theorem unlock_after_three_witness:
  "\<not> isTestMode (App_init\<lparr>state := INITIAL_STATE\<lparr>isLocked := [MAKE_TEN \<mapsto> True]\<rparr>\<rparr>)
   \<and> truthy (isLocked (state (App_init\<lparr>state := INITIAL_STATE\<lparr>isLocked := [MAKE_TEN \<mapsto> True]\<rparr>\<rparr>))) MAKE_TEN
   \<and> isLocked (state (fold completeGame
         (replicate 3 \<lparr>score = 100, rating = Diamond, time = 0, gameType = DOUBLES\<rparr>)
         (App_init\<lparr>state := INITIAL_STATE\<lparr>isLocked := [MAKE_TEN \<mapsto> True]\<rparr>\<rparr>))) MAKE_TEN = Some False
   \<and> otherSuccessesSinceLock (state (fold completeGame
         (replicate 2 \<lparr>score = 100, rating = Diamond, time = 0, gameType = DOUBLES\<rparr>)
         (App_init\<lparr>state := INITIAL_STATE\<lparr>isLocked := [MAKE_TEN \<mapsto> True]\<rparr>\<rparr>))) MAKE_TEN = Some 2"
  using unlock_after_three [of "App_init\<lparr>state := INITIAL_STATE\<lparr>isLocked := [MAKE_TEN \<mapsto> True]\<rparr>\<rparr>"
      MAKE_TEN "replicate 3 \<lparr>score = 100, rating = Diamond, time = 0, gameType = DOUBLES\<rparr>"
      "replicate 2 \<lparr>score = 100, rating = Diamond, time = 0, gameType = DOUBLES\<rparr>"]
  by (simp add: App_init_def INITIAL_STATE_def or0_def truthy_def)

section \<open>Test attempts\<close>

text \<open>
  C8.  A completion in test mode leaves the success counts, the locks and the unlock
  progress of every game as they were, whatever the game and the score; in test mode
  no event changes them, and no event other than the completion of an attempt ever
  does: only completions in practice mode drive the locks.
\<close>

theorem test_completion_keeps_ledger:
  "(isTestMode app \<longrightarrow>
      successCounts (state (completeGame r app)) = successCounts (state app)
      \<and> isLocked (state (completeGame r app)) = isLocked (state app)
      \<and> otherSuccessesSinceLock (state (completeGame r app)) = otherSuccessesSinceLock (state app)
      \<and> ledger_of (state (step e app)) = ledger_of (state app))
   \<and> ((\<forall>n left. e \<noteq> Finish n left) \<longrightarrow> ledger_of (state (step e app)) = ledger_of (state app))"
proof (intro conjI impI)
  assume t: "isTestMode app"
  from completeGame_test_ledger [OF t, of r]
  show "successCounts (state (completeGame r app)) = successCounts (state app)"
    and "isLocked (state (completeGame r app)) = isLocked (state app)"
    and "otherSuccessesSinceLock (state (completeGame r app)) = otherSuccessesSinceLock (state app)"
    by (simp_all add: ledger_of_def)
  show "ledger_of (state (step e app)) = ledger_of (state app)"
  proof (cases e)
    case (Finish n left)
    with t show ?thesis by (simp add: completeGame_test_ledger split: option.splits)
  next
    case (Buy p i)
    then show ?thesis by (simp add: buyItem_others)
  qed (simp_all add: startGame_state)
next
  assume "\<forall>n left. e \<noteq> Finish n left"
  then show "ledger_of (state (step e app)) = ledger_of (state app)"
    by (cases e) (simp_all add: buyItem_others startGame_state)
qed

theorem test_completion_keeps_ledger_witness:
  "isTestMode (startGame MAKE_TEN TIMED True App_init)
   \<and> isLocked (state (completeGame
        \<lparr>score = 100, rating = Diamond, time = 12, gameType = MAKE_TEN\<rparr>
        (startGame MAKE_TEN TIMED True App_init))) = isLocked INITIAL_STATE
   \<and> successCounts (state (completeGame
        \<lparr>score = 100, rating = Diamond, time = 12, gameType = MAKE_TEN\<rparr>
        (startGame MAKE_TEN TIMED True App_init))) = successCounts INITIAL_STATE
   \<and> otherSuccessesSinceLock (state (completeGame
        \<lparr>score = 100, rating = Diamond, time = 12, gameType = MAKE_TEN\<rparr>
        (startGame MAKE_TEN TIMED True App_init))) = otherSuccessesSinceLock INITIAL_STATE
   \<and> ledger_of (state (step (Buy 10 ''wood-tile'') (startGame MAKE_TEN TIMED True App_init)))
       = ledger_of INITIAL_STATE"
  using test_completion_keeps_ledger [of "startGame MAKE_TEN TIMED True App_init"
      "\<lparr>score = 100, rating = Diamond, time = 12, gameType = MAKE_TEN\<rparr>" "Buy 10 ''wood-tile''"]
  by (simp add: startGame_def App_init_def truthy_def INITIAL_STATE_def)

text \<open>
  C5.  A test result sets the best test score of its game to the maximum of the
  previous best (0 when there is none) and the new score: a lower score leaves the
  stored scores unchanged, a higher one is stored exactly.  Over any sequence of
  events of a run (attempts started and finished, in test or practice mode,
  purchases, changes of view and of settings) the best test score of a game never
  decreases.  Erasing the progress is not an event of a run: it puts
  \<open>INITIAL_STATE\<close> back, and with it a new progress state begins.
\<close>

theorem best_test_score_max:
  "(isTestMode app \<longrightarrow>
      or0 (testScores (state (completeGame r app))) (gameType r)
        = max (or0 (testScores (state app)) (gameType r)) (score r)
      \<and> (score r < or0 (testScores (state app)) (gameType r) \<longrightarrow>
           testScores (state (completeGame r app)) = testScores (state app))
      \<and> (or0 (testScores (state app)) (gameType r) < score r \<longrightarrow>
           testScores (state (completeGame r app)) (gameType r) = Some (score r)))
   \<and> or0 (testScores (state app)) v \<le> or0 (testScores (state (run evs app))) v"
proof (intro conjI impI)
  assume t: "isTestMode app"
  show "or0 (testScores (state (completeGame r app))) (gameType r)
        = max (or0 (testScores (state app)) (gameType r)) (score r)"
    using t by (simp add: completeGame_testScores or0_def max_def)
  show "testScores (state (completeGame r app)) = testScores (state app)"
    if "score r < or0 (testScores (state app)) (gameType r)"
    using that by (simp add: completeGame_testScores)
  show "testScores (state (completeGame r app)) (gameType r) = Some (score r)"
    if "or0 (testScores (state app)) (gameType r) < score r"
    using that t by (simp add: completeGame_testScores)
next
  show "or0 (testScores (state app)) v \<le> or0 (testScores (state (run evs app))) v"
    by (rule run_best_mono)
qed

theorem best_test_score_max_witness:
  "isTestMode (completeGame \<lparr>score = 80, rating = Wood, time = 30, gameType = DOUBLES\<rparr>
        (startGame DOUBLES TIMED True App_init))
   \<and> or0 (testScores (state (completeGame \<lparr>score = 80, rating = Wood, time = 30, gameType = DOUBLES\<rparr>
        (startGame DOUBLES TIMED True App_init)))) DOUBLES = 80
   \<and> testScores (state (completeGame \<lparr>score = 60, rating = Wood, time = 30, gameType = DOUBLES\<rparr>
        (completeGame \<lparr>score = 80, rating = Wood, time = 30, gameType = DOUBLES\<rparr>
          (startGame DOUBLES TIMED True App_init))))
       = testScores (state (completeGame \<lparr>score = 80, rating = Wood, time = 30, gameType = DOUBLES\<rparr>
          (startGame DOUBLES TIMED True App_init)))
   \<and> testScores (state (completeGame \<lparr>score = 90, rating = Diamond, time = 30, gameType = DOUBLES\<rparr>
        (completeGame \<lparr>score = 80, rating = Wood, time = 30, gameType = DOUBLES\<rparr>
          (startGame DOUBLES TIMED True App_init)))) DOUBLES = Some 90
   \<and> or0 (testScores (state App_init)) DOUBLES
       \<le> or0 (testScores (state (run [Start DOUBLES TIMED True, Finish 10 30] App_init))) DOUBLES"
proof -
  let ?a = "completeGame \<lparr>score = 80, rating = Wood, time = 30, gameType = DOUBLES\<rparr>
        (startGame DOUBLES TIMED True App_init)"
  have t: "isTestMode ?a"
    by (simp add: completeGame_isTestMode startGame_def)
  have b: "or0 (testScores (state ?a)) DOUBLES = 80"
    by (simp add: completeGame_testScores startGame_def App_init_def INITIAL_STATE_def or0_def)
  from best_test_score_max
    [of ?a "\<lparr>score = 60, rating = Wood, time = 30, gameType = DOUBLES\<rparr>" DOUBLES "[]"] t b
  have low: "testScores (state (completeGame
      \<lparr>score = 60, rating = Wood, time = 30, gameType = DOUBLES\<rparr> ?a)) = testScores (state ?a)"
    by simp
  from best_test_score_max
    [of ?a "\<lparr>score = 90, rating = Diamond, time = 30, gameType = DOUBLES\<rparr>" DOUBLES "[]"] t b
  have high: "testScores (state (completeGame
      \<lparr>score = 90, rating = Diamond, time = 30, gameType = DOUBLES\<rparr> ?a)) DOUBLES = Some 90"
    by simp
  from best_test_score_max
    [of App_init "\<lparr>score = 60, rating = Wood, time = 30, gameType = DOUBLES\<rparr>" DOUBLES
      "[Start DOUBLES TIMED True, Finish 10 30]"]
  have mono: "or0 (testScores (state App_init)) DOUBLES
       \<le> or0 (testScores (state (run [Start DOUBLES TIMED True, Finish 10 30] App_init))) DOUBLES"
    by simp
  from t b low high mono show ?thesis by simp
qed

section \<open>Level and emeralds in every reachable state\<close>

text \<open>
  C6.  In every state a run reaches from the initial progress state (a first launch,
  or erased progress), \<open>level = floor (xp / 100) + 1\<close>.  The only operation that
  changes the xp, \<open>addEmeralds\<close>, which every completion calls, computes the level
  from the new xp by this formula, and the formula holds in \<open>INITIAL_STATE\<close>.
  Starting from an xp of 0, the reward of an attempt with score 100 gives an xp of 50
  and level 1, and four of them in a row give an xp of 200 and level 3.
\<close>

theorem level_from_xp:
  "level (state (run evs (app\<lparr>state := INITIAL_STATE\<rparr>)))
     = xp (state (run evs (app\<lparr>state := INITIAL_STATE\<rparr>))) div 100 + 1
   \<and> level (addEmeralds amount prev) = xp (addEmeralds amount prev) div 100 + 1
   \<and> level (state (completeGame result app)) = xp (state (completeGame result app)) div 100 + 1
   \<and> level INITIAL_STATE = xp INITIAL_STATE div 100 + 1
   \<and> xp (state (completeGame (result\<lparr>score := 100\<rparr>)
        (app\<lparr>state := (state app)\<lparr>xp := 0\<rparr>\<rparr>))) = 50
   \<and> level (state (completeGame (result\<lparr>score := 100\<rparr>)
        (app\<lparr>state := (state app)\<lparr>xp := 0\<rparr>\<rparr>))) = 1
   \<and> xp (state (fold completeGame (replicate 4 (result\<lparr>score := 100\<rparr>))
        (app\<lparr>state := (state app)\<lparr>xp := 0\<rparr>\<rparr>))) = 200
   \<and> level (state (fold completeGame (replicate 4 (result\<lparr>score := 100\<rparr>))
        (app\<lparr>state := (state app)\<lparr>xp := 0\<rparr>\<rparr>))) = 3"
proof -
  let ?r = "result\<lparr>score := 100\<rparr>"
  let ?a = "app\<lparr>state := (state app)\<lparr>xp := 0\<rparr>\<rparr>"
  have init: "level (state (app\<lparr>state := INITIAL_STATE\<rparr>))
      = xp (state (app\<lparr>state := INITIAL_STATE\<rparr>)) div 100 + 1"
    by (simp add: INITIAL_STATE_def)
  have four: "fold completeGame (replicate 4 ?r) ?a
      = completeGame ?r (fold completeGame [?r, ?r, ?r] ?a)"
    by (simp add: numeral_eq_Suc)
  have x4: "xp (state (fold completeGame (replicate 4 ?r) ?a)) = 200"
    unfolding four by (simp add: completeGame_xp)
  have l4: "level (state (fold completeGame (replicate 4 ?r) ?a)) = 3"
    using completeGame_level [of ?r "fold completeGame [?r, ?r, ?r] ?a"] x4
    unfolding four by simp
  have x1: "xp (state (completeGame ?r ?a)) = 50"
    by (simp add: completeGame_xp)
  have l1: "level (state (completeGame ?r ?a)) = 1"
    unfolding completeGame_level x1 by simp
  show ?thesis
    using run_level [OF init] x1 l1 x4 l4
    by (simp add: completeGame_level addEmeralds_def INITIAL_STATE_def)
qed

text \<open>
  C10.  The emeralds are an integer that is never negative in a state a run reaches
  from the initial progress state; the completions of a run are those the game
  screen reports, whose scores are not negative.  \<open>buyItem\<close> takes the price off
  only when the emeralds cover it and the item is not owned yet, and then adds the
  item to the owned ones and equips it; otherwise emeralds and owned items stay as
  they are, and for an item already owned \<open>buyItem\<close> does nothing but equip it.
  (\<open>buyItem\<close> tests the state of the last render and updates the current one; in a
  run each event is rendered before the next, so that the two are the same.)
\<close>

theorem emeralds_never_negative:
  "0 \<le> emeralds (state (run evs (app\<lparr>state := INITIAL_STATE\<rparr>)))
   \<and> (price \<le> emeralds (state app) \<and> itemId \<notin> set (unlockedItems (state app)) \<longrightarrow>
        emeralds (state (buyItem price itemId app)) = emeralds (state app) - price
        \<and> unlockedItems (state (buyItem price itemId app)) = unlockedItems (state app) @ [itemId]
        \<and> equippedItem (state (buyItem price itemId app)) = itemId)
   \<and> (emeralds (state app) < price \<or> itemId \<in> set (unlockedItems (state app)) \<longrightarrow>
        emeralds (state (buyItem price itemId app)) = emeralds (state app)
        \<and> unlockedItems (state (buyItem price itemId app)) = unlockedItems (state app))
   \<and> (itemId \<in> set (unlockedItems (state app)) \<longrightarrow>
        buyItem price itemId app = app\<lparr>state := (state app)\<lparr>equippedItem := itemId\<rparr>\<rparr>)"
proof -
  have "0 \<le> emeralds (state (app\<lparr>state := INITIAL_STATE\<rparr>))"
    by (simp add: INITIAL_STATE_def)
  then have "0 \<le> emeralds (state (run evs (app\<lparr>state := INITIAL_STATE\<rparr>)))"
    by (rule run_emeralds)
  then show ?thesis by (auto simp add: buyItem_def)
qed

theorem emeralds_never_negative_witness:
  "0 \<le> emeralds (state (run [Start DOUBLES STREAK False, Finish 20 0, Show_view V_shop,
                              Buy 10 ''wood-tile''] App_init))
   \<and> emeralds (state (buyItem 25 ''stone-tile''
        (App_init\<lparr>state := INITIAL_STATE\<lparr>emeralds := 30\<rparr>\<rparr>))) = 5
   \<and> unlockedItems (state (buyItem 25 ''stone-tile''
        (App_init\<lparr>state := INITIAL_STATE\<lparr>emeralds := 30\<rparr>\<rparr>))) = [''base-char'', ''stone-tile'']
   \<and> emeralds (state (buyItem 50 ''steve''
        (App_init\<lparr>state := INITIAL_STATE\<lparr>emeralds := 30\<rparr>\<rparr>))) = 30
   \<and> unlockedItems (state (buyItem 50 ''steve''
        (App_init\<lparr>state := INITIAL_STATE\<lparr>emeralds := 30\<rparr>\<rparr>))) = [''base-char'']
   \<and> buyItem 10 ''base-char'' (App_init\<lparr>state := INITIAL_STATE\<lparr>emeralds := 30\<rparr>\<rparr>)
       = App_init\<lparr>state := INITIAL_STATE\<lparr>emeralds := 30, equippedItem := ''base-char''\<rparr>\<rparr>"
proof -
  let ?a = "App_init\<lparr>state := INITIAL_STATE\<lparr>emeralds := 30\<rparr>\<rparr>"
  have i: "App_init\<lparr>state := INITIAL_STATE\<rparr> = App_init" by (simp add: App_init_def)
  from emeralds_never_negative [of "[Start DOUBLES STREAK False, Finish 20 0, Show_view V_shop,
      Buy 10 ''wood-tile'']" App_init 25 "''stone-tile''"]
  have r: "0 \<le> emeralds (state (run [Start DOUBLES STREAK False, Finish 20 0, Show_view V_shop,
                              Buy 10 ''wood-tile''] App_init))"
    unfolding i by simp
  from emeralds_never_negative [of "[]" ?a 25 "''stone-tile''"]
  have b1: "emeralds (state (buyItem 25 ''stone-tile'' ?a)) = 5
      \<and> unlockedItems (state (buyItem 25 ''stone-tile'' ?a)) = [''base-char'', ''stone-tile'']"
    by (simp add: INITIAL_STATE_def)
  from emeralds_never_negative [of "[]" ?a 50 "''steve''"]
  have b2: "emeralds (state (buyItem 50 ''steve'' ?a)) = 30
      \<and> unlockedItems (state (buyItem 50 ''steve'' ?a)) = [''base-char'']"
    by (simp add: INITIAL_STATE_def)
  from emeralds_never_negative [of "[]" ?a 10 "''base-char''"]
  have b3: "buyItem 10 ''base-char'' ?a
      = App_init\<lparr>state := INITIAL_STATE\<lparr>emeralds := 30, equippedItem := ''base-char''\<rparr>\<rparr>"
    by (simp add: INITIAL_STATE_def)
  from r b1 b2 b3 show ?thesis by simp
qed

section \<open>Scores out of range\<close>

text \<open>
  C9.  As stated, the claim fails: the source clamps nowhere.  A score of 150 earns
  15 emeralds, where the clamped score would earn 10.
\<close>

theorem reward_not_clamped_counterexample:
  "emeralds (state (completeGame \<lparr>score = 150, rating = Diamond, time = 0, gameType = MAKE_TEN\<rparr>
      App_init))
     \<noteq> emeralds (state App_init) + \<lfloor>spec_clamp 150 / 10\<rfloor>"
  by (simp add: completeGame_emeralds spec_clamp_def)

text \<open>
  C9, amended.  A score outside the range 0 to 100 is used as it is, with no clamping
  and no error: the attempt earns \<open>floor (s / 10)\<close> emeralds and five times that in
  xp, which is not the reward of the clamped score exactly when \<open>s < 0\<close> or
  \<open>s \<ge> 110\<close>, and a test attempt stores \<open>s\<close> itself as the best score when \<open>s\<close> is
  not below the previous best.  The rating \<open>TestSelection\<close> computes from a stored
  score out of range is the rating of the clamped score.
\<close>

theorem out_of_range_score_used_directly:
  assumes "score r < 0 \<or> 100 < score r"
  shows "emeralds (state (completeGame r app)) = emeralds (state app) + \<lfloor>score r / 10\<rfloor>
    \<and> xp (state (completeGame r app)) = xp (state app) + 5 * \<lfloor>score r / 10\<rfloor>
    \<and> ((\<lfloor>score r / 10\<rfloor> \<noteq> \<lfloor>spec_clamp (score r) / 10\<rfloor>) = (score r < 0 \<or> 110 \<le> score r))
    \<and> (isTestMode app \<and> or0 (testScores (state app)) (gameType r) \<le> score r \<longrightarrow>
         testScores (state (completeGame r app)) (gameType r) = Some (score r))
    \<and> TestSelection_rating [t \<mapsto> score r] t = TestSelection_rating [t \<mapsto> spec_clamp (score r)] t"
proof -
  have fl: "(\<lfloor>score r / 10\<rfloor> \<noteq> \<lfloor>spec_clamp (score r) / 10\<rfloor>) = (score r < 0 \<or> 110 \<le> score r)"
  proof (cases "score r < 0")
    case True
    then have a: "\<lfloor>score r / 10\<rfloor> < 0" by (simp add: floor_less_iff)
    from True have b: "\<lfloor>spec_clamp (score r) / 10\<rfloor> = 0" by (simp add: spec_clamp_def)
    from a have "\<lfloor>score r / 10\<rfloor> \<noteq> \<lfloor>spec_clamp (score r) / 10\<rfloor>"
      unfolding b by linarith
    with True show ?thesis by blast
  next
    case False
    with assms have hi: "100 < score r" by simp
    then have c: "\<lfloor>spec_clamp (score r) / 10\<rfloor> = 10" by (simp add: spec_clamp_def)
    have "(\<lfloor>score r / 10\<rfloor> = 10) = (score r < 110)"
      using hi by (simp add: floor_eq_iff)
    with c False show ?thesis by auto
  qed
  have rt: "TestSelection_rating [t \<mapsto> score r] t
      = TestSelection_rating [t \<mapsto> spec_clamp (score r)] t"
    using assms by (auto simp add: TestSelection_rating_def or0_def spec_clamp_def Let_def)
  show ?thesis
    using fl rt by (simp add: completeGame_emeralds completeGame_xp completeGame_testScores)
qed

theorem out_of_range_score_used_directly_witness:
  "(100::real) < score \<lparr>score = 150, rating = Diamond, time = 0, gameType = MAKE_TEN\<rparr>
   \<and> emeralds (state (completeGame \<lparr>score = 150, rating = Diamond, time = 0, gameType = MAKE_TEN\<rparr>
        (startGame MAKE_TEN TIMED True App_init))) = 15
   \<and> xp (state (completeGame \<lparr>score = 150, rating = Diamond, time = 0, gameType = MAKE_TEN\<rparr>
        (startGame MAKE_TEN TIMED True App_init))) = 75
   \<and> testScores (state (completeGame \<lparr>score = 150, rating = Diamond, time = 0, gameType = MAKE_TEN\<rparr>
        (startGame MAKE_TEN TIMED True App_init))) MAKE_TEN = Some 150
   \<and> TestSelection_rating [MAKE_TEN \<mapsto> 150] MAKE_TEN = TestSelection_rating [MAKE_TEN \<mapsto> spec_clamp 150] MAKE_TEN"
  using out_of_range_score_used_directly
    [of "\<lparr>score = 150, rating = Diamond, time = 0, gameType = MAKE_TEN\<rparr>"
        "startGame MAKE_TEN TIMED True App_init" MAKE_TEN]
  by (simp add: startGame_def App_init_def INITIAL_STATE_def or0_def)

section \<open>Mastery ratings\<close>









end
